theory Spec2Isabelle
  imports Main
begin

section \<open>Python values and errors\<close>

text \<open>
  The script \<^verbatim>\<open>scripts/sprint_close.py\<close> is modelled function by function.
  Every exception a function of the script can raise by itself is a value of \<open>error\<close>;
  a fallible function returns \<open>error + 'a\<close> with \<open>Inl\<close> for the exception.
\<close>

datatype error = ValueError | AssertionError | NameError

text \<open>The JSON values that the script stores in its payload dictionaries.\<close>

datatype pyval = PyNone | PyBool bool | PyInt int | PyStr string

subsection \<open>\<^verbatim>\<open>int(...)\<close> and \<^verbatim>\<open>str(...)\<close> on decimal numerals\<close>

definition is_digit :: "char \<Rightarrow> bool" where
  "is_digit c = (c \<in> set ''0123456789'')"

definition digit_value :: "char \<Rightarrow> int" where
  "digit_value c = int (of_char c) - 48"

text \<open>
  \<^verbatim>\<open>int(s)\<close> on the text of the group \<^verbatim>\<open>number\<close>, which the pattern restricts to
  ASCII digits: the empty string raises \<^verbatim>\<open>ValueError\<close>, leading zeros are accepted.
\<close>

definition py_int :: "string \<Rightarrow> error + int" where
  "py_int s =
     (if s = [] then Inl ValueError
      else if list_all is_digit s then Inr (foldl (\<lambda>a c. 10 * a + digit_value c) 0 s)
      else Inl ValueError)"

definition digit_char :: "nat \<Rightarrow> char" where
  "digit_char d = ''0123456789'' ! d"

fun str_nat :: "nat \<Rightarrow> string" where
  "str_nat n = (if n < 10 then [digit_char n] else str_nat (n div 10) @ [digit_char (n mod 10)])"

declare str_nat.simps [simp del]

text \<open>\<^verbatim>\<open>str(i)\<close>, the text an f-string puts for an integer.\<close>

definition py_str :: "int \<Rightarrow> string" where
  "py_str i = (if i < 0 then CHR ''-'' # str_nat (nat (- i)) else str_nat (nat i))"

section \<open>Name versioner: \<^verbatim>\<open>get_duplicate_name\<close>\<close>

text \<open>
  A name is the list of its characters, so that \<open>drop 4\<close> is the slice \<^verbatim>\<open>name[4:]\<close>.

  \<^verbatim>\<open>DUPLICATED_TASK_PREFIX = re.compile(r"^\[(?P<number>[0-9]{0,2})\]")\<close>, used with
  \<^verbatim>\<open>.match(name)\<close>. After the opening bracket the greedy quantifier tries two digits,
  then one, then none, each time followed by the closing bracket. The result is the text
  of the group \<^verbatim>\<open>number\<close>, or \<open>None\<close> when nothing matches.
\<close>

definition try_digits :: "nat \<Rightarrow> string \<Rightarrow> string option" where
  "try_digits k cs =
     (if k < length cs \<and> list_all is_digit (take k cs) \<and> cs ! k = CHR '']''
      then Some (take k cs) else None)"

definition DUPLICATED_TASK_PREFIX :: "string \<Rightarrow> string option" where
  "DUPLICATED_TASK_PREFIX name =
     (case name of
        [] \<Rightarrow> None
      | c # cs \<Rightarrow>
          if c \<noteq> CHR ''['' then None
          else (case try_digits 2 cs of
                  Some ds \<Rightarrow> Some ds
                | None \<Rightarrow>
                    (case try_digits 1 cs of
                       Some ds \<Rightarrow> Some ds
                     | None \<Rightarrow> try_digits 0 cs)))"

definition get_duplicate_name :: "string \<Rightarrow> error + string" where
  "get_duplicate_name name =
     (case DUPLICATED_TASK_PREFIX name of
        None \<Rightarrow> Inr (''[1] '' @ name)
      | Some number \<Rightarrow>
          (case py_int number of
             Inl e \<Rightarrow> Inl e
           | Inr n \<Rightarrow> Inr ((''['' @ py_str (n + 1) @ '']'') @ '' '' @ drop 4 name)))"

section \<open>The task snapshot read from the remote service\<close>

text \<open>
  A task is the dictionary that \<^verbatim>\<open>get_tasks\<close> yields with the fields asked for in
  \<^verbatim>\<open>opt_fields\<close>. Only the keys the script reads are kept; a JSON \<^verbatim>\<open>null\<close> is \<open>None\<close>.
  The assignee is passed through unread, so its type is a parameter. A custom field
  carries its id, its kind tag as the string the service sends, and the three value keys
  the script reads, each present and possibly null; \<^verbatim>\<open>enum_value\<close> is read only for
  the \<^verbatim>\<open>gid\<close> of the chosen option.
\<close>

record membership =
  membership_project_gid :: string
  membership_section_gid :: string

datatype enum_option = EnumOption (option_gid: string)

record custom_field =
  cf_gid :: string
  cf_type :: string
  number_value :: "int option"
  enum_value :: "enum_option option"
  text_value :: "string option"

record 'u task =
  task_gid :: string
  task_name :: string
  task_assignee :: "'u option"
  raw_memberships :: "membership list"
  raw_custom_fields :: "custom_field list"

section \<open>Membership rebuilder: \<^verbatim>\<open>generate_memberships\<close>\<close>

text \<open>An entry of the payload: the dictionary with the keys \<^verbatim>\<open>project\<close> and \<^verbatim>\<open>section\<close>.\<close>

record membership_payload =
  payload_project :: string
  payload_section :: string

text \<open>The \<^verbatim>\<open>for membership in raw\<close> loop; the last argument is the list appended to.\<close>

fun memberships_loop ::
  "string \<Rightarrow> string \<Rightarrow> membership list \<Rightarrow> membership_payload list \<Rightarrow> membership_payload list"
where
  "memberships_loop sprints_project_gid backlog_gid [] memberships = memberships"
| "memberships_loop sprints_project_gid backlog_gid (membership # raw) memberships =
     (if membership_project_gid membership = sprints_project_gid
      then memberships_loop sprints_project_gid backlog_gid raw
             (memberships @
                [\<lparr>payload_project = sprints_project_gid, payload_section = backlog_gid\<rparr>])
      else memberships_loop sprints_project_gid backlog_gid raw
             (memberships @
                [\<lparr>payload_project = membership_project_gid membership,
                  payload_section = membership_section_gid membership\<rparr>]))"

definition generate_memberships ::
  "'u task \<Rightarrow> string \<Rightarrow> string \<Rightarrow> membership_payload list"
where
  "generate_memberships task sprints_project_gid backlog_gid =
     memberships_loop sprints_project_gid backlog_gid (raw_memberships task) []"

section \<open>Custom-field reconciler: \<^verbatim>\<open>generate_custom_fields\<close>\<close>

text \<open>
  The loop state is the dictionary \<^verbatim>\<open>custom_fields\<close> with the two accumulators
  \<^verbatim>\<open>expected\<close> and \<^verbatim>\<open>actual\<close>. Numbers are integers, as the return annotation
  \<^verbatim>\<open>Dict[str, Union[str, int]]\<close> has them.
\<close>

type_synonym cf_state = "(string \<rightharpoonup> pyval) \<times> int \<times> int"

definition text_payload :: "string option \<Rightarrow> pyval" where
  "text_payload v = (case v of None \<Rightarrow> PyNone | Some s \<Rightarrow> PyStr s)"

definition number_payload :: "int option \<Rightarrow> pyval" where
  "number_payload v = (case v of None \<Rightarrow> PyNone | Some n \<Rightarrow> PyInt n)"

text \<open>
  One pass through the loop body for one \<^verbatim>\<open>custom_field\<close>. A \<^verbatim>\<open>continue\<close> leaves the
  state as it is; \<^verbatim>\<open>assert False\<close> raises \<^verbatim>\<open>AssertionError\<close>.
\<close>

fun custom_field_step ::
  "string \<Rightarrow> string \<Rightarrow> string \<Rightarrow> custom_field \<Rightarrow> cf_state \<Rightarrow> error + cf_state"
where
  "custom_field_step expected_field_gid actual_field_gid sprint_number_field_gid custom_field
     (custom_fields, expected, actual) =
     (if cf_gid custom_field = expected_field_gid then
        (case number_value custom_field of
           None \<Rightarrow> Inr (custom_fields, expected, actual)
         | Some v \<Rightarrow> Inr (custom_fields, v, actual))
      else if cf_gid custom_field = actual_field_gid then
        (case number_value custom_field of
           None \<Rightarrow> Inr (custom_fields, expected, actual)
         | Some v \<Rightarrow> Inr (custom_fields, expected, v))
      else if cf_gid custom_field = sprint_number_field_gid then
        Inr (custom_fields, expected, actual)
      else if cf_type custom_field = ''enum'' then
        (case enum_value custom_field of
           None \<Rightarrow> Inr (custom_fields, expected, actual)
         | Some opt \<Rightarrow>
             Inr (custom_fields(cf_gid custom_field \<mapsto> PyStr (option_gid opt)), expected, actual))
      else if cf_type custom_field = ''text'' then
        Inr (custom_fields(cf_gid custom_field \<mapsto> text_payload (text_value custom_field)),
             expected, actual)
      else if cf_type custom_field = ''number'' then
        Inr (custom_fields(cf_gid custom_field \<mapsto> number_payload (number_value custom_field)),
             expected, actual)
      else Inl AssertionError)"

text \<open>The \<^verbatim>\<open>for custom_field in raw\<close> loop: the first exception ends it.\<close>

fun custom_fields_loop ::
  "string \<Rightarrow> string \<Rightarrow> string \<Rightarrow> custom_field list \<Rightarrow> cf_state \<Rightarrow> error + cf_state"
where
  "custom_fields_loop e a s [] st = Inr st"
| "custom_fields_loop e a s (custom_field # raw) st =
     (case custom_field_step e a s custom_field st of
        Inl err \<Rightarrow> Inl err
      | Inr st' \<Rightarrow> custom_fields_loop e a s raw st')"

definition generate_custom_fields ::
  "'u task \<Rightarrow> string \<Rightarrow> string \<Rightarrow> string \<Rightarrow> error + (string \<rightharpoonup> pyval)"
where
  "generate_custom_fields task expected_field_gid actual_field_gid sprint_number_field_gid =
     (case custom_fields_loop expected_field_gid actual_field_gid sprint_number_field_gid
             (raw_custom_fields task) (Map.empty, 0, 0) of
        Inl err \<Rightarrow> Inl err
      | Inr (custom_fields, expected, actual) \<Rightarrow>
          Inr (custom_fields(expected_field_gid \<mapsto>
                 PyInt (if actual < expected then expected - actual else 0))))"

section \<open>Sprint-close orchestrator: \<^verbatim>\<open>duplicate_tasks\<close> and \<^verbatim>\<open>complete_tasks\<close>\<close>

text \<open>
  A client object is known by its identity. The remote service is a snapshot of what
  \<^verbatim>\<open>get_tasks\<close> answers for each section, with the journal of every request submitted
  so far, oldest first, each with the client object it went through. Remote calls
  themselves are taken to succeed.
\<close>

type_synonym client = nat

text \<open>The dictionary handed to \<^verbatim>\<open>create_in_workspace\<close>.\<close>

record 'u new_task =
  new_name :: string
  new_assignee :: "'u option"
  new_memberships :: "membership_payload list"
  new_custom_fields :: "string \<rightharpoonup> pyval"

datatype 'u request =
    GetTasks string "string list"
  | CreateInWorkspace string "'u new_task"
  | DeleteTask string
  | UpdateTask string "string \<rightharpoonup> pyval"

record 'u remote =
  tasks_in_section :: "string \<Rightarrow> 'u task list"
  submitted :: "(client \<times> 'u request) list"

definition submit :: "client \<Rightarrow> 'u request \<Rightarrow> 'u remote \<Rightarrow> 'u remote" where
  "submit c req r = r\<lparr>submitted := submitted r @ [(c, req)]\<rparr>"

text \<open>
  The \<^verbatim>\<open>for task in section\<close> loop of \<^verbatim>\<open>duplicate_tasks\<close>. The create goes through the
  parameter \<^verbatim>\<open>asana_client\<close>; the delete is written \<^verbatim>\<open>client.tasks.delete_task\<close>, and
  \<^verbatim>\<open>client\<close> is no parameter or local of the function: it is the module-level name,
  bound only by the \<^verbatim>\<open>__main__\<close> block. \<open>global_client\<close> is its binding, \<open>None\<close> when
  the name is unbound, where the lookup raises \<^verbatim>\<open>NameError\<close>. The result is the
  exception that ended the loop, if any, with the remote service as it is left.
\<close>

fun duplicate_loop ::
  "client option \<Rightarrow> client \<Rightarrow> string \<Rightarrow> string \<Rightarrow> string \<Rightarrow> string \<Rightarrow> string \<Rightarrow> string \<Rightarrow>
   'u task list \<Rightarrow> 'u remote \<Rightarrow> error option \<times> 'u remote"
where
  "duplicate_loop global_client asana_client workspace_gid sprints_project_gid backlog_gid
     expected_field_gid actual_field_gid sprint_number_field_gid [] r = (None, r)"
| "duplicate_loop global_client asana_client workspace_gid sprints_project_gid backlog_gid
     expected_field_gid actual_field_gid sprint_number_field_gid (task # section) r =
     (case get_duplicate_name (task_name task) of
        Inl err \<Rightarrow> (Some err, r)
      | Inr name' \<Rightarrow>
          (case generate_custom_fields task expected_field_gid actual_field_gid
                  sprint_number_field_gid of
             Inl err \<Rightarrow> (Some err, r)
           | Inr task_custom_fields \<Rightarrow>
               (let r1 = submit asana_client
                           (CreateInWorkspace workspace_gid
                              \<lparr>new_name = name',
                               new_assignee = task_assignee task,
                               new_memberships =
                                 generate_memberships task sprints_project_gid backlog_gid,
                               new_custom_fields = task_custom_fields\<rparr>) r
                in (case global_client of
                      None \<Rightarrow> (Some NameError, r1)
                    | Some c \<Rightarrow>
                        duplicate_loop global_client asana_client workspace_gid
                          sprints_project_gid backlog_gid expected_field_gid actual_field_gid
                          sprint_number_field_gid section
                          (submit c (DeleteTask (task_gid task)) r1)))))"

definition duplicate_tasks_opt_fields :: "string list" where
  "duplicate_tasks_opt_fields =
     [''name'', ''custom_fields'', ''memberships.section.gid'', ''memberships.project.gid'',
      ''assignee'']"

definition duplicate_tasks ::
  "client option \<Rightarrow> client \<Rightarrow> string \<Rightarrow> string \<Rightarrow> string \<Rightarrow> string \<Rightarrow> string \<Rightarrow> string \<Rightarrow> string \<Rightarrow>
   'u remote \<Rightarrow> error option \<times> 'u remote"
where
  "duplicate_tasks global_client asana_client workspace_gid sprints_project_gid backlog_gid
     section_gid expected_field_gid actual_field_gid sprint_number_field_gid r =
     duplicate_loop global_client asana_client workspace_gid sprints_project_gid backlog_gid
       expected_field_gid actual_field_gid sprint_number_field_gid
       (tasks_in_section r section_gid)
       (submit asana_client (GetTasks section_gid duplicate_tasks_opt_fields) r)"

text \<open>The \<^verbatim>\<open>for task in section\<close> loop of \<^verbatim>\<open>complete_tasks\<close>.\<close>

fun complete_loop :: "client \<Rightarrow> 'u task list \<Rightarrow> 'u remote \<Rightarrow> 'u remote" where
  "complete_loop asana_client [] r = r"
| "complete_loop asana_client (task # section) r =
     complete_loop asana_client section
       (submit asana_client (UpdateTask (task_gid task) [''completed'' \<mapsto> PyBool True]) r)"

definition complete_tasks :: "client \<Rightarrow> string \<Rightarrow> 'u remote \<Rightarrow> 'u remote" where
  "complete_tasks asana_client section_gid r =
     complete_loop asana_client (tasks_in_section r section_gid)
       (submit asana_client (GetTasks section_gid []) r)"

section \<open>The wording of the specification, for comparison\<close>

text \<open>
  The values a list of fields reports for one field id, nulls left out, in input order;
  and the last of them, 0 when there is none ("expected-seen", "actual-seen").
\<close>

definition seen_values :: "string \<Rightarrow> custom_field list \<Rightarrow> int list" where
  "seen_values g fs = List.map_filter (\<lambda>f. if cf_gid f = g then number_value f else None) fs"

definition last_seen :: "string \<Rightarrow> custom_field list \<Rightarrow> int" where
  "last_seen g fs = (if seen_values g fs = [] then 0 else last (seen_values g fs))"

text \<open>The kinds the reconciler knows.\<close>

definition known_kind :: "string \<Rightarrow> bool" where
  "known_kind k = (k = ''enum'' \<or> k = ''text'' \<or> k = ''number'')"

text \<open>
  A field that reaches the last branch of the loop body: its id is none of the three
  configured ids and its kind is none of the known ones.
\<close>

definition unknown_field :: "string \<Rightarrow> string \<Rightarrow> string \<Rightarrow> custom_field \<Rightarrow> bool" where
  "unknown_field e a s f =
     (cf_gid f \<noteq> e \<and> cf_gid f \<noteq> a \<and> cf_gid f \<noteq> s \<and> \<not> known_kind (cf_type f))"

text \<open>The last value seen for a field id, starting from \<open>x\<close> instead of 0.\<close>

definition carry :: "string \<Rightarrow> custom_field list \<Rightarrow> int \<Rightarrow> int" where
  "carry g fs x = (if seen_values g fs = [] then x else last (seen_values g fs))"

subsection \<open>The scenarios of the specification\<close>

definition number_field :: "string \<Rightarrow> int option \<Rightarrow> custom_field" where
  "number_field g v =
     \<lparr>cf_gid = g, cf_type = ''number'', number_value = v, enum_value = None,
      text_value = None\<rparr>"

definition enum_field :: "string \<Rightarrow> string \<Rightarrow> custom_field" where
  "enum_field g opt =
     \<lparr>cf_gid = g, cf_type = ''enum'', number_value = None,
      enum_value = Some (EnumOption opt), text_value = None\<rparr>"

definition scenario_fields :: "custom_field list" where
  "scenario_fields =
     [number_field ''E'' (Some 5), number_field ''A'' (Some 2), number_field ''S'' (Some 7),
      enum_field ''X'' ''opt1'']"

definition scenario_memberships :: "membership list" where
  "scenario_memberships =
     [\<lparr>membership_project_gid = ''sprintProj'', membership_section_gid = ''sectionOld''\<rparr>,
      \<lparr>membership_project_gid = ''otherProj'', membership_section_gid = ''otherSection''\<rparr>]"

definition scenario_task :: "string task" where
  "scenario_task =
     \<lparr>task_gid = ''t1'', task_name = ''Hello'', task_assignee = Some ''u1'',
      raw_memberships = scenario_memberships, raw_custom_fields = scenario_fields\<rparr>"

definition date_field :: "string \<Rightarrow> int option \<Rightarrow> custom_field" where
  "date_field g v =
     \<lparr>cf_gid = g, cf_type = ''date'', number_value = v, enum_value = None, text_value = None\<rparr>"

text \<open>One field with the id that is configured as both the expected and the actual cost.\<close>

definition same_id_task :: "string task" where
  "same_id_task = scenario_task\<lparr>raw_custom_fields := [number_field ''E'' (Some 5)]\<rparr>"

text \<open>A field of a kind the reconciler does not know, under an id that is not configured.\<close>

definition unknown_kind_task :: "string task" where
  "unknown_kind_task =
     scenario_task\<lparr>raw_custom_fields := [number_field ''E'' (Some 5), date_field ''D'' None]\<rparr>"

text \<open>The first scenario with the three configured fields reporting an unknown kind.\<close>

definition odd_kinds_task :: "string task" where
  "odd_kinds_task =
     scenario_task\<lparr>raw_custom_fields :=
       [date_field ''E'' (Some 5), date_field ''A'' (Some 2), date_field ''S'' (Some 7),
        enum_field ''X'' ''opt1'']\<rparr>"

text \<open>A field list with the kind tags of the fields under a configured id replaced.\<close>

definition retag ::
  "string \<Rightarrow> string \<Rightarrow> string \<Rightarrow> (custom_field \<Rightarrow> string) \<Rightarrow> custom_field \<Rightarrow> custom_field"
where
  "retag e a s k f =
     (if cf_gid f = e \<or> cf_gid f = a \<or> cf_gid f = s then f\<lparr>cf_type := k f\<rparr> else f)"

subsection \<open>The orchestrator's requests\<close>

text \<open>A service with one task, the one of the scenarios, in the section \<open>in_progress\<close>.\<close>

definition one_task_remote :: "string remote" where
  "one_task_remote =
     \<lparr>tasks_in_section = (\<lambda>g. if g = ''in_progress'' then [scenario_task] else []),
      submitted = []\<rparr>"

text \<open>
  The two requests the specification expects for one task: the create with the
  DuplicationSpec, then the delete of the original, both through the same client.
  \<open>duplicable\<close> says that the name and the custom fields of a task can be computed.
\<close>

definition duplication_requests ::
  "client \<Rightarrow> string \<Rightarrow> string \<Rightarrow> string \<Rightarrow> string \<Rightarrow> string \<Rightarrow> string \<Rightarrow> 'u task \<Rightarrow>
   (client \<times> 'u request) list"
where
  "duplication_requests c workspace_gid sprints_project_gid backlog_gid e a s task =
     (case get_duplicate_name (task_name task) of
        Inl err \<Rightarrow> []
      | Inr name' \<Rightarrow>
          (case generate_custom_fields task e a s of
             Inl err \<Rightarrow> []
           | Inr cfs \<Rightarrow>
               [(c, CreateInWorkspace workspace_gid
                      \<lparr>new_name = name', new_assignee = task_assignee task,
                       new_memberships =
                         generate_memberships task sprints_project_gid backlog_gid,
                       new_custom_fields = cfs\<rparr>),
                (c, DeleteTask (task_gid task))]))"

definition duplicable :: "string \<Rightarrow> string \<Rightarrow> string \<Rightarrow> 'u task \<Rightarrow> bool" where
  "duplicable e a s task =
     (isl (get_duplicate_name (task_name task)) = False \<and>
      isl (generate_custom_fields task e a s) = False)"

section \<open>Properties of the name versioner\<close>

lemma not_digit_close: "\<not> is_digit CHR '']''"
  by (simp add: is_digit_def)

text \<open>On a digit, \<open>digit_value\<close> is its decimal value and \<open>digit_char\<close> gives it back.\<close>

lemma digit_value_digit:
  "is_digit d \<Longrightarrow>
   0 \<le> digit_value d \<and> digit_value d \<le> 9 \<and> digit_char (nat (digit_value d)) = d"
  by (auto simp: is_digit_def digit_value_def digit_char_def)

text \<open>The model of the pattern matches exactly the names the regular expression matches.\<close>

lemma prefix_match_shape:
  assumes "DUPLICATED_TASK_PREFIX name = Some ds"
  shows "\<exists>rest. length ds \<le> 2 \<and> list_all is_digit ds \<and> name = CHR ''['' # ds @ CHR '']'' # rest"
proof -
  from assms obtain cs where name: "name = CHR ''['' # cs"
    by (auto simp: DUPLICATED_TASK_PREFIX_def split: list.splits if_splits)
  from assms name
  have "try_digits 2 cs = Some ds \<or> try_digits (Suc 0) cs = Some ds \<or> try_digits 0 cs = Some ds"
    by (auto simp: DUPLICATED_TASK_PREFIX_def split: option.splits)
  then obtain k where k: "k \<le> 2" "try_digits k cs = Some ds"
    by (auto intro: that [of 2] that [of "Suc 0"] that [of 0])
  then have *: "k < length cs" "list_all is_digit (take k cs)" "cs ! k = CHR '']''" "ds = take k cs"
    by (auto simp: try_digits_def split: if_splits)
  then have "cs = ds @ CHR '']'' # drop (Suc k) cs"
    using id_take_nth_drop [of k cs] by simp
  with name * k show ?thesis by auto
qed

lemma prefix_match_no_digit:
  "DUPLICATED_TASK_PREFIX (CHR ''['' # CHR '']'' # rest) = Some []"
  by (auto simp add: DUPLICATED_TASK_PREFIX_def try_digits_def not_digit_close split: option.splits)

lemma prefix_match_one_digit:
  "is_digit d \<Longrightarrow> DUPLICATED_TASK_PREFIX (CHR ''['' # d # CHR '']'' # rest) = Some [d]"
  by (simp add: DUPLICATED_TASK_PREFIX_def try_digits_def not_digit_close)

lemma prefix_match_two_digits:
  "is_digit d1 \<Longrightarrow> is_digit d2 \<Longrightarrow>
   DUPLICATED_TASK_PREFIX (CHR ''['' # d1 # d2 # CHR '']'' # rest) = Some [d1, d2]"
  by (simp add: DUPLICATED_TASK_PREFIX_def try_digits_def)

lemma prefix_match_complete:
  assumes "length ds \<le> 2" and "list_all is_digit ds"
  shows "DUPLICATED_TASK_PREFIX (CHR ''['' # ds @ CHR '']'' # rest) = Some ds"
proof -
  from assms(1) consider "ds = []" | d where "ds = [d]" | d1 d2 where "ds = [d1, d2]"
    by (auto simp: le_Suc_eq length_Suc_conv numeral_2_eq_2)
  then show ?thesis
    using assms(2)
    by cases (simp_all add: prefix_match_no_digit prefix_match_one_digit prefix_match_two_digits)
qed

lemma no_prefix_unmatched:
  assumes "\<not> (\<exists>ds rest. length ds \<le> 2 \<and> list_all is_digit ds \<and>
                name = CHR ''['' # ds @ CHR '']'' # rest)"
  shows "DUPLICATED_TASK_PREFIX name = None"
proof (cases "DUPLICATED_TASK_PREFIX name")
  case None
  then show ?thesis .
next
  case (Some ds)
  from prefix_match_shape [OF Some] assms show ?thesis by blast
qed

lemma get_duplicate_name_unmatched:
  "DUPLICATED_TASK_PREFIX name = None \<Longrightarrow> get_duplicate_name name = Inr (''[1] '' @ name)"
  by (simp add: get_duplicate_name_def)

lemma get_duplicate_name_one_digit:
  "is_digit d \<Longrightarrow>
   get_duplicate_name (CHR ''['' # d # CHR '']'' # rest) =
     Inr (''['' @ py_str (digit_value d + 1) @ ''] '' @ drop 4 (CHR ''['' # d # CHR '']'' # rest))"
  by (simp add: get_duplicate_name_def prefix_match_one_digit py_int_def)

lemma get_duplicate_name_two_digits:
  "is_digit d1 \<Longrightarrow> is_digit d2 \<Longrightarrow>
   get_duplicate_name (CHR ''['' # d1 # d2 # CHR '']'' # rest) =
     Inr (''['' @ py_str (10 * digit_value d1 + digit_value d2 + 1) @ ''] '' @
          drop 4 (CHR ''['' # d1 # d2 # CHR '']'' # rest))"
  by (simp add: get_duplicate_name_def prefix_match_two_digits py_int_def)

text \<open>
  C1, as the code has it. A name that does not start with an opening bracket, at most
  two ASCII digits and a closing bracket becomes \<open>''[1] '' @ name\<close>. A name that starts
  with a bracketed number \<open>n\<close> of one or two digits becomes the bracketed \<open>n + 1\<close>, a
  space, and the name without its first four characters, whatever follows the closing
  bracket. The name \<open>''Hello''\<close> becomes \<open>''[1] Hello''\<close>. (Nothing is said here of a
  pair of brackets with no digit between them.)
\<close>

theorem get_duplicate_name_by_pattern:
  "(\<not> (\<exists>ds rest. length ds \<le> 2 \<and> list_all is_digit ds \<and>
          name = CHR ''['' # ds @ CHR '']'' # rest)
      \<longrightarrow> get_duplicate_name name = Inr (''[1] '' @ name)) \<and>
   (is_digit d \<longrightarrow>
      get_duplicate_name (CHR ''['' # d # CHR '']'' # rest1) =
        Inr (''['' @ py_str (digit_value d + 1) @ ''] '' @
             drop 4 (CHR ''['' # d # CHR '']'' # rest1))) \<and>
   (is_digit d1 \<and> is_digit d2 \<longrightarrow>
      get_duplicate_name (CHR ''['' # d1 # d2 # CHR '']'' # rest2) =
        Inr (''['' @ py_str (10 * digit_value d1 + digit_value d2 + 1) @ ''] '' @
             drop 4 (CHR ''['' # d1 # d2 # CHR '']'' # rest2))) \<and>
   get_duplicate_name ''Hello'' = Inr ''[1] Hello''"
proof -
  have "get_duplicate_name ''Hello'' = Inr ''[1] Hello''"
    by (simp add: get_duplicate_name_def DUPLICATED_TASK_PREFIX_def)
  then show ?thesis
    using no_prefix_unmatched [of name] get_duplicate_name_unmatched [of name]
      get_duplicate_name_one_digit [of d rest1] get_duplicate_name_two_digits [of d1 d2 rest2]
    by blast
qed

theorem get_duplicate_name_by_pattern_witness:
  "get_duplicate_name ''Task'' = Inr ''[1] Task'' \<and>
   get_duplicate_name ''[2] World'' = Inr ''[3] World'' \<and>
   get_duplicate_name ''[12] x'' = Inr ''[13]  x''"
  using get_duplicate_name_by_pattern
    [where name = "''Task''" and d = "CHR ''2''" and ?rest1.0 = "'' World''"
       and ?d1.0 = "CHR ''1''" and ?d2.0 = "CHR ''2''" and ?rest2.0 = "'' x''"]
  by (simp add: is_digit_def digit_value_def py_str_def str_nat.simps digit_char_def)

text \<open>
  C1 as it is worded fails twice. On \<open>''[] x''\<close>, a name that starts with a bracketed
  prefix of no digit and a space, no name is returned: \<^verbatim>\<open>int('')\<close> raises. On
  \<open>''[1]x''\<close>, where no space follows the bracket, the result is not \<open>''[1] [1]x''\<close>:
  the pattern does not look past the closing bracket.
\<close>

theorem get_duplicate_name_counterexample:
  "get_duplicate_name ''[] x'' = Inl ValueError \<and>
   get_duplicate_name ''[1]x'' = Inr ''[2] '' \<and>
   get_duplicate_name ''[1]x'' \<noteq> Inr (''[1] '' @ ''[1]x'')"
  by (simp add: get_duplicate_name_def DUPLICATED_TASK_PREFIX_def try_digits_def py_int_def
      is_digit_def digit_value_def py_str_def str_nat.simps digit_char_def)

text \<open>
  C2 at its failing input: on every name that starts with \<open>''[]''\<close> the pattern matches
  with an empty group, and \<^verbatim>\<open>int('')\<close> raises \<^verbatim>\<open>ValueError\<close>; no string is returned.
\<close>

theorem get_duplicate_name_empty_brackets:
  "get_duplicate_name (''[]'' @ rest) = Inl ValueError"
  by (simp add: get_duplicate_name_def prefix_match_no_digit py_int_def)

text \<open>
  C9: for a name \<open>x\<close> that does not start with a bracketed prefix, the first call gives
  \<open>''[1] '' @ x\<close> and the second call, on that result, gives \<open>''[2] '' @ x\<close>.
\<close>

theorem get_duplicate_name_twice:
  assumes "\<not> (\<exists>ds rest. length ds \<le> 2 \<and> list_all is_digit ds \<and>
                x = CHR ''['' # ds @ CHR '']'' # rest)"
  shows "get_duplicate_name x = Inr (''[1] '' @ x) \<and>
         get_duplicate_name (''[1] '' @ x) = Inr (''[2] '' @ x)"
proof -
  have d: "is_digit CHR ''1''"
    by (simp add: is_digit_def)
  have "get_duplicate_name x = Inr (''[1] '' @ x)"
    using assms by (simp add: no_prefix_unmatched get_duplicate_name_unmatched)
  moreover have "get_duplicate_name (''[1] '' @ x) = Inr (''[2] '' @ x)"
    using get_duplicate_name_one_digit [OF d, of "CHR '' '' # x"]
    by (simp add: digit_value_def py_str_def str_nat.simps digit_char_def)
  ultimately show ?thesis by simp
qed

theorem get_duplicate_name_twice_witness:
  "get_duplicate_name ''Hello'' = Inr ''[1] Hello'' \<and>
   get_duplicate_name ''[1] Hello'' = Inr ''[2] Hello''"
  using get_duplicate_name_twice [of "''Hello''"] by simp

section \<open>Properties of the membership rebuilder\<close>

lemma memberships_loop_map:
  "memberships_loop sp bl raw acc =
     acc @ map (\<lambda>m. if membership_project_gid m = sp
                     then \<lparr>payload_project = sp, payload_section = bl\<rparr>
                     else \<lparr>payload_project = membership_project_gid m,
                           payload_section = membership_section_gid m\<rparr>) raw"
  by (induction raw arbitrary: acc) simp_all

text \<open>
  C5: the rebuilt list has the length of the input; at every position, an entry of the
  sprint project becomes the pair of the sprint project and the backlog section, and any
  other entry keeps its project id and its section id; no membership gives the empty list.
\<close>

theorem generate_memberships_entries:
  "length (generate_memberships task sp bl) = length (raw_memberships task) \<and>
   (\<forall>i < length (raw_memberships task).
      (membership_project_gid (raw_memberships task ! i) = sp \<longrightarrow>
         generate_memberships task sp bl ! i =
           \<lparr>payload_project = sp, payload_section = bl\<rparr>) \<and>
      (membership_project_gid (raw_memberships task ! i) \<noteq> sp \<longrightarrow>
         generate_memberships task sp bl ! i =
           \<lparr>payload_project = membership_project_gid (raw_memberships task ! i),
            payload_section = membership_section_gid (raw_memberships task ! i)\<rparr>)) \<and>
   (raw_memberships task = [] \<longrightarrow> generate_memberships task sp bl = [])"
  by (simp add: generate_memberships_def memberships_loop_map)

theorem generate_memberships_entries_witness:
  "length (generate_memberships scenario_task ''sprintProj'' ''BL'') = 2 \<and>
   generate_memberships scenario_task ''sprintProj'' ''BL'' ! 0 =
     \<lparr>payload_project = ''sprintProj'', payload_section = ''BL''\<rparr> \<and>
   generate_memberships scenario_task ''sprintProj'' ''BL'' ! 1 =
     \<lparr>payload_project = ''otherProj'', payload_section = ''otherSection''\<rparr>"
proof -
  have raw: "raw_memberships scenario_task =
      [\<lparr>membership_project_gid = ''sprintProj'', membership_section_gid = ''sectionOld''\<rparr>,
       \<lparr>membership_project_gid = ''otherProj'', membership_section_gid = ''otherSection''\<rparr>]"
    by (simp add: scenario_task_def scenario_memberships_def)
  from generate_memberships_entries [of scenario_task "''sprintProj''" "''BL''"]
  have len: "length (generate_memberships scenario_task ''sprintProj'' ''BL'') = 2"
    and all: "\<And>i. i < 2 \<Longrightarrow>
      (membership_project_gid (raw_memberships scenario_task ! i) = ''sprintProj'' \<longrightarrow>
         generate_memberships scenario_task ''sprintProj'' ''BL'' ! i =
           \<lparr>payload_project = ''sprintProj'', payload_section = ''BL''\<rparr>) \<and>
      (membership_project_gid (raw_memberships scenario_task ! i) \<noteq> ''sprintProj'' \<longrightarrow>
         generate_memberships scenario_task ''sprintProj'' ''BL'' ! i =
           \<lparr>payload_project = membership_project_gid (raw_memberships scenario_task ! i),
            payload_section = membership_section_gid (raw_memberships scenario_task ! i)\<rparr>)"
    by (simp_all add: raw)
  from all [of 0] all [of 1] len show ?thesis
    by (simp add: raw)
qed

section \<open>Properties of the custom-field reconciler\<close>

lemma step_unknown:
  "unknown_field e a s f \<Longrightarrow> custom_field_step e a s f st = Inl AssertionError"
  by (cases st rule: prod_cases3) (simp add: unknown_field_def known_kind_def)

lemma step_known:
  "\<not> unknown_field e a s f \<Longrightarrow> \<exists>st'. custom_field_step e a s f st = Inr st'"
  by (cases st rule: prod_cases3)
    (auto simp add: unknown_field_def known_kind_def split: option.splits)

lemma loop_unknown:
  "list_ex (unknown_field e a s) fs \<Longrightarrow> custom_fields_loop e a s fs st = Inl AssertionError"
proof (induction fs arbitrary: st)
  case Nil
  then show ?case by simp
next
  case (Cons f fs)
  show ?case
  proof (cases "unknown_field e a s f")
    case True
    then show ?thesis by (simp add: step_unknown)
  next
    case False
    then obtain st' where "custom_field_step e a s f st = Inr st'"
      using step_known by blast
    moreover from Cons.prems False have "list_ex (unknown_field e a s) fs" by simp
    ultimately show ?thesis using Cons.IH by simp
  qed
qed

lemma loop_known:
  "\<not> list_ex (unknown_field e a s) fs \<Longrightarrow> \<exists>st'. custom_fields_loop e a s fs st = Inr st'"
proof (induction fs arbitrary: st)
  case Nil
  show ?case by (rule exI [of _ st]) simp
next
  case (Cons f fs)
  then obtain st' where "custom_field_step e a s f st = Inr st'"
    using step_known [of e a s f st] by auto
  with Cons show ?case by simp
qed

lemma generate_unknown:
  "list_ex (unknown_field e a s) (raw_custom_fields task) \<Longrightarrow>
   generate_custom_fields task e a s = Inl AssertionError"
  by (simp add: generate_custom_fields_def loop_unknown)

lemma generate_known:
  assumes "\<not> list_ex (unknown_field e a s) (raw_custom_fields task)"
  shows "\<exists>m. generate_custom_fields task e a s = Inr m"
proof -
  from loop_known [OF assms] obtain st' where
    "custom_fields_loop e a s (raw_custom_fields task) (Map.empty, 0, 0) = Inr st'"
    by blast
  then show ?thesis
    by (cases st' rule: prod_cases3) (simp add: generate_custom_fields_def)
qed

lemma step_dom:
  "custom_field_step e a s f (m, x, y) = Inr (m', x', y') \<Longrightarrow>
   dom m' \<subseteq> dom m \<union> ({cf_gid f} - {e, a, s})"
  by (auto split: option.splits if_splits)

lemma loop_dom:
  "custom_fields_loop e a s fs (m, x, y) = Inr (m', x', y') \<Longrightarrow> dom m' \<inter> {e, a, s} \<subseteq> dom m"
proof (induction fs arbitrary: m x y)
  case Nil
  then show ?case by auto
next
  case (Cons f fs)
  from Cons.prems obtain m1 x1 y1 where
    s: "custom_field_step e a s f (m, x, y) = Inr (m1, x1, y1)" and
    l: "custom_fields_loop e a s fs (m1, x1, y1) = Inr (m', x', y')"
    by (auto split: sum.splits)
  from Cons.IH [OF l] step_dom [OF s] show ?case by blast
qed

lemma seen_values_Cons:
  "seen_values g (f # fs) =
     (if cf_gid f = g then (case number_value f of None \<Rightarrow> [] | Some v \<Rightarrow> [v]) else []) @
     seen_values g fs"
  by (simp add: seen_values_def split: option.splits)

lemma carry_Nil: "carry g [] x = x"
  by (simp add: carry_def seen_values_def)

lemma carry_Cons:
  "carry g (f # fs) x =
     carry g fs (if cf_gid f = g then (case number_value f of None \<Rightarrow> x | Some v \<Rightarrow> v) else x)"
  by (simp add: carry_def seen_values_Cons split: option.splits)

lemma last_seen_carry: "last_seen g fs = carry g fs 0"
  by (simp add: last_seen_def carry_def)

lemma loop_accumulators:
  "e \<noteq> a \<Longrightarrow> custom_fields_loop e a s fs (m, x, y) = Inr (m', x', y') \<Longrightarrow>
   x' = carry e fs x \<and> y' = carry a fs y"
proof (induction fs arbitrary: m x y)
  case Nil
  then show ?case by (simp add: carry_Nil)
next
  case (Cons f fs)
  from Cons.prems(2) obtain m1 x1 y1 where
    s: "custom_field_step e a s f (m, x, y) = Inr (m1, x1, y1)" and
    l: "custom_fields_loop e a s fs (m1, x1, y1) = Inr (m', x', y')"
    by (auto split: sum.splits)
  from s Cons.prems(1) have
    "x1 = (if cf_gid f = e then (case number_value f of None \<Rightarrow> x | Some v \<Rightarrow> v) else x)"
    "y1 = (if cf_gid f = a then (case number_value f of None \<Rightarrow> y | Some v \<Rightarrow> v) else y)"
    by (auto split: option.splits if_splits)
  with Cons.IH [OF Cons.prems(1) l] show ?case by (simp add: carry_Cons)
qed

lemma generate_result:
  assumes "generate_custom_fields task e a s = Inr m"
  obtains m' x y where
    "custom_fields_loop e a s (raw_custom_fields task) (Map.empty, 0, 0) = Inr (m', x, y)"
    "m = m'(e \<mapsto> PyInt (if y < x then x - y else 0))"
  using assms by (auto simp: generate_custom_fields_def split: sum.splits)

lemma scenario_result:
  "generate_custom_fields (task\<lparr>raw_custom_fields := scenario_fields\<rparr>) ''E'' ''A'' ''S'' =
     Inr [''E'' \<mapsto> PyInt 3, ''X'' \<mapsto> PyStr ''opt1'']"
  by (simp add: generate_custom_fields_def scenario_fields_def number_field_def enum_field_def
      fun_upd_twist)

lemma step_retag:
  "custom_field_step e a s (retag e a s k f) st = custom_field_step e a s f st"
  by (cases st rule: prod_cases3) (simp add: retag_def)

lemma loop_retag:
  "custom_fields_loop e a s (map (retag e a s k) fs) st = custom_fields_loop e a s fs st"
  by (induction fs arbitrary: st) (simp_all add: step_retag split: sum.splits)

lemma generate_error:
  assumes "generate_custom_fields task e a s = Inl err"
  shows "list_ex (unknown_field e a s) (raw_custom_fields task)"
proof (rule ccontr)
  assume "\<not> list_ex (unknown_field e a s) (raw_custom_fields task)"
  from generate_known [OF this] assms show False by auto
qed

lemma scenario_task_result:
  "generate_custom_fields scenario_task ''E'' ''A'' ''S'' =
     Inr [''E'' \<mapsto> PyInt 3, ''X'' \<mapsto> PyStr ''opt1'']"
  using scenario_result [of scenario_task] by (simp add: scenario_task_def)


text \<open>
  C3, as the code has it: when the expected-cost id and the actual-cost id differ, every
  mapping that \<open>generate_custom_fields\<close> returns maps the expected-cost id to
  \<open>max (expected-seen - actual-seen) 0\<close>, where each is the last non-null number reported
  under its id and 0 when there is none; a mapping is returned whenever no field reaches
  the unknown-kind branch; and the scenario E=5, A=2, S=7, X=opt1 gives exactly
  \<open>{E: 3, X: opt1}\<close>.
\<close>

theorem generate_custom_fields_expected:
  assumes "e \<noteq> a"
  shows "(generate_custom_fields task e a s = Inr m \<longrightarrow>
            m e = Some (PyInt (max (last_seen e (raw_custom_fields task) -
                                    last_seen a (raw_custom_fields task)) 0))) \<and>
         (\<not> list_ex (unknown_field e a s) (raw_custom_fields task) \<longrightarrow>
            (\<exists>m'. generate_custom_fields task e a s = Inr m')) \<and>
         generate_custom_fields (task\<lparr>raw_custom_fields := scenario_fields\<rparr>) ''E'' ''A'' ''S'' =
           Inr [''E'' \<mapsto> PyInt 3, ''X'' \<mapsto> PyStr ''opt1'']"
proof (intro conjI impI)
  assume "generate_custom_fields task e a s = Inr m"
  then obtain m' x y where
    l: "custom_fields_loop e a s (raw_custom_fields task) (Map.empty, 0, 0) = Inr (m', x, y)" and
    m: "m = m'(e \<mapsto> PyInt (if y < x then x - y else 0))"
    by (rule generate_result)
  from loop_accumulators [OF assms l]
  have "x = last_seen e (raw_custom_fields task)" "y = last_seen a (raw_custom_fields task)"
    by (simp_all add: last_seen_carry)
  with m show "m e = Some (PyInt (max (last_seen e (raw_custom_fields task) -
                                    last_seen a (raw_custom_fields task)) 0))"
    by (simp add: max_def)
next
  assume "\<not> list_ex (unknown_field e a s) (raw_custom_fields task)"
  then show "\<exists>m'. generate_custom_fields task e a s = Inr m'"
    by (rule generate_known)
next
  show "generate_custom_fields (task\<lparr>raw_custom_fields := scenario_fields\<rparr>) ''E'' ''A'' ''S'' =
           Inr [''E'' \<mapsto> PyInt 3, ''X'' \<mapsto> PyStr ''opt1'']"
    by (rule scenario_result)
qed

theorem generate_custom_fields_expected_witness:
  "''E'' \<noteq> ''A'' \<and>
   generate_custom_fields scenario_task ''E'' ''A'' ''S'' =
     Inr [''E'' \<mapsto> PyInt 3, ''X'' \<mapsto> PyStr ''opt1''] \<and>
   \<not> list_ex (unknown_field ''E'' ''A'' ''S'') (raw_custom_fields scenario_task) \<and>
   last_seen ''E'' (raw_custom_fields scenario_task) = 5 \<and>
   last_seen ''A'' (raw_custom_fields scenario_task) = 2 \<and>
   [''E'' \<mapsto> PyInt 3, ''X'' \<mapsto> PyStr ''opt1''] ''E'' = Some (PyInt (max (5 - 2) 0))"
proof -
  have ne: "''E'' \<noteq> ''A''" by simp
  have raw: "raw_custom_fields scenario_task = scenario_fields"
    by (simp add: scenario_task_def)
  have known: "\<not> list_ex (unknown_field ''E'' ''A'' ''S'') (raw_custom_fields scenario_task)"
    by (simp add: raw scenario_fields_def number_field_def enum_field_def unknown_field_def
        known_kind_def)
  have seen: "last_seen ''E'' (raw_custom_fields scenario_task) = 5"
    "last_seen ''A'' (raw_custom_fields scenario_task) = 2"
    by (simp_all add: raw scenario_fields_def number_field_def enum_field_def last_seen_def
        seen_values_def)
  from generate_custom_fields_expected [OF ne, of scenario_task "''S''"
      "[''E'' \<mapsto> PyInt 3, ''X'' \<mapsto> PyStr ''opt1'']"] scenario_task_result known seen
  show ?thesis by simp
qed

text \<open>
  C3 as it is worded, for every configuration, fails when one id is configured as both
  the expected and the actual cost: the first branch of the loop takes every such field,
  \<^verbatim>\<open>actual\<close> stays 0, and the result is 5 where the claim's formula gives 0.
\<close>

theorem generate_custom_fields_expected_counterexample:
  "generate_custom_fields same_id_task ''E'' ''E'' ''S'' = Inr [''E'' \<mapsto> PyInt 5] \<and>
   max (last_seen ''E'' (raw_custom_fields same_id_task) -
        last_seen ''E'' (raw_custom_fields same_id_task)) 0 = 0 \<and>
   [''E'' \<mapsto> PyInt 5] ''E'' \<noteq>
     Some (PyInt (max (last_seen ''E'' (raw_custom_fields same_id_task) -
                       last_seen ''E'' (raw_custom_fields same_id_task)) 0))"
  by (simp add: generate_custom_fields_def same_id_task_def number_field_def)

text \<open>
  C4: with the three configured ids pairwise distinct, a returned mapping has the
  expected-cost id among its keys and has neither the sprint-number id nor the
  actual-cost id.
\<close>

theorem generate_custom_fields_keys:
  assumes "distinct [e, a, s]" and "generate_custom_fields task e a s = Inr m"
  shows "s \<notin> dom m \<and> e \<in> dom m \<and> a \<notin> dom m"
proof -
  from assms(2) obtain m' x y where
    l: "custom_fields_loop e a s (raw_custom_fields task) (Map.empty, 0, 0) = Inr (m', x, y)" and
    m: "m = m'(e \<mapsto> PyInt (if y < x then x - y else 0))"
    by (rule generate_result)
  from loop_dom [OF l] have "s \<notin> dom m'" "a \<notin> dom m'" by auto
  with m assms(1) show ?thesis by auto
qed

theorem generate_custom_fields_keys_witness:
  "distinct [''E'', ''A'', ''S''] \<and>
   generate_custom_fields scenario_task ''E'' ''A'' ''S'' =
     Inr [''E'' \<mapsto> PyInt 3, ''X'' \<mapsto> PyStr ''opt1''] \<and>
   ''S'' \<notin> dom [''E'' \<mapsto> PyInt 3, ''X'' \<mapsto> PyStr ''opt1''] \<and>
   ''E'' \<in> dom [''E'' \<mapsto> PyInt 3, ''X'' \<mapsto> PyStr ''opt1''] \<and>
   ''A'' \<notin> dom [''E'' \<mapsto> PyInt 3, ''X'' \<mapsto> PyStr ''opt1'']"
proof -
  have d: "distinct [''E'', ''A'', ''S'']" by simp
  from generate_custom_fields_keys [OF d scenario_task_result] d scenario_task_result
  show ?thesis by blast
qed


text \<open>
  C7: a field list that contains a field whose id is none of the three configured ids and
  whose kind is none of \<open>enum\<close>, \<open>text\<close>, \<open>number\<close> makes \<open>generate_custom_fields\<close>
  raise \<^verbatim>\<open>AssertionError\<close>; no mapping is returned.
\<close>

theorem generate_custom_fields_unknown_kind:
  assumes "f \<in> set (raw_custom_fields task)"
    and "cf_gid f \<notin> {e, a, s}"
    and "cf_type f \<notin> {''enum'', ''text'', ''number''}"
  shows "generate_custom_fields task e a s = Inl AssertionError"
proof -
  from assms(2,3) have "unknown_field e a s f"
    by (simp add: unknown_field_def known_kind_def)
  with assms(1) have "list_ex (unknown_field e a s) (raw_custom_fields task)"
    by (auto simp: list_ex_iff)
  then show ?thesis by (rule generate_unknown)
qed

theorem generate_custom_fields_unknown_kind_witness:
  "date_field ''D'' None \<in> set (raw_custom_fields unknown_kind_task) \<and>
   cf_gid (date_field ''D'' None) \<notin> {''E'', ''A'', ''S''} \<and>
   cf_type (date_field ''D'' None) \<notin> {''enum'', ''text'', ''number''} \<and>
   generate_custom_fields unknown_kind_task ''E'' ''A'' ''S'' = Inl AssertionError"
proof -
  have 1: "date_field ''D'' None \<in> set (raw_custom_fields unknown_kind_task)"
    by (simp add: unknown_kind_task_def)
  have 2: "cf_gid (date_field ''D'' None) \<notin> {''E'', ''A'', ''S''}"
    by (simp add: date_field_def)
  have 3: "cf_type (date_field ''D'' None) \<notin> {''enum'', ''text'', ''number''}"
    by (simp add: date_field_def)
  from generate_custom_fields_unknown_kind [OF 1 2 3] 1 2 3 show ?thesis by blast
qed

text \<open>
  C10: a field under one of the three configured ids never raises and is handled the same
  whatever its kind tag; when \<open>generate_custom_fields\<close> raises, it is the assertion, and
  some field under an id that is not configured has an unknown kind; replacing the kind
  tags of all fields under configured ids leaves the result as it is.
\<close>

theorem configured_ids_before_kinds:
  "(cf_gid f \<in> {e, a, s} \<longrightarrow>
      (\<exists>st'. custom_field_step e a s f st = Inr st') \<and>
      custom_field_step e a s (f\<lparr>cf_type := k'\<rparr>) st = custom_field_step e a s f st) \<and>
   (generate_custom_fields task e a s = Inl err \<longrightarrow>
      err = AssertionError \<and>
      (\<exists>g \<in> set (raw_custom_fields task).
         cf_gid g \<notin> {e, a, s} \<and> cf_type g \<notin> {''enum'', ''text'', ''number''})) \<and>
   generate_custom_fields
     (task\<lparr>raw_custom_fields := map (retag e a s k) (raw_custom_fields task)\<rparr>) e a s =
     generate_custom_fields task e a s"
proof (intro conjI impI)
  assume id: "cf_gid f \<in> {e, a, s}"
  then have "\<not> unknown_field e a s f"
    by (auto simp: unknown_field_def)
  then show "\<exists>st'. custom_field_step e a s f st = Inr st'"
    by (rule step_known)
  from id have "retag e a s (\<lambda>_. k') f = f\<lparr>cf_type := k'\<rparr>"
    by (auto simp: retag_def)
  with step_retag [of e a s "\<lambda>_. k'" f st]
  show "custom_field_step e a s (f\<lparr>cf_type := k'\<rparr>) st = custom_field_step e a s f st"
    by simp
next
  assume err: "generate_custom_fields task e a s = Inl err"
  from generate_error [OF err] have ex: "list_ex (unknown_field e a s) (raw_custom_fields task)" .
  with generate_unknown [OF ex] err show "err = AssertionError" by simp
  from ex show "\<exists>g \<in> set (raw_custom_fields task).
         cf_gid g \<notin> {e, a, s} \<and> cf_type g \<notin> {''enum'', ''text'', ''number''}"
    by (auto simp: list_ex_iff unknown_field_def known_kind_def)
next
  show "generate_custom_fields
     (task\<lparr>raw_custom_fields := map (retag e a s k) (raw_custom_fields task)\<rparr>) e a s =
     generate_custom_fields task e a s"
    by (simp add: generate_custom_fields_def loop_retag)
qed

theorem configured_ids_before_kinds_witness:
  "cf_gid (date_field ''E'' (Some 5)) \<in> {''E'', ''A'', ''S''} \<and>
   cf_type (date_field ''E'' (Some 5)) \<notin> {''enum'', ''text'', ''number''} \<and>
   custom_field_step ''E'' ''A'' ''S'' (date_field ''E'' (Some 5)) (Map.empty, 0, 0) =
     Inr (Map.empty, 5, 0) \<and>
   custom_field_step ''E'' ''A'' ''S'' ((date_field ''E'' (Some 5))\<lparr>cf_type := ''number''\<rparr>)
     (Map.empty, 0, 0) = Inr (Map.empty, 5, 0) \<and>
   generate_custom_fields odd_kinds_task ''E'' ''A'' ''S'' =
     Inr [''E'' \<mapsto> PyInt 3, ''X'' \<mapsto> PyStr ''opt1'']"
proof -
  have id: "cf_gid (date_field ''E'' (Some 5)) \<in> {''E'', ''A'', ''S''}"
    and kind: "cf_type (date_field ''E'' (Some 5)) \<notin> {''enum'', ''text'', ''number''}"
    by (simp_all add: date_field_def)
  have step: "custom_field_step ''E'' ''A'' ''S'' (date_field ''E'' (Some 5)) (Map.empty, 0, 0) =
     Inr (Map.empty, 5, 0)"
    by (simp add: date_field_def)
  have odd: "odd_kinds_task =
      scenario_task\<lparr>raw_custom_fields :=
        map (retag ''E'' ''A'' ''S'' (\<lambda>_. ''date'')) (raw_custom_fields scenario_task)\<rparr>"
    by (simp add: odd_kinds_task_def scenario_task_def scenario_fields_def retag_def
        date_field_def number_field_def enum_field_def)
  note inst = configured_ids_before_kinds
    [of "date_field ''E'' (Some 5)" "''E''" "''A''" "''S''" "(Map.empty, 0, 0)" "''number''"
      scenario_task AssertionError "\<lambda>_. ''date''"]
  from inst id have
    "custom_field_step ''E'' ''A'' ''S'' ((date_field ''E'' (Some 5))\<lparr>cf_type := ''number''\<rparr>)
       (Map.empty, 0, 0) =
     custom_field_step ''E'' ''A'' ''S'' (date_field ''E'' (Some 5)) (Map.empty, 0, 0)"
    by blast
  with step have step': "custom_field_step ''E'' ''A'' ''S''
      ((date_field ''E'' (Some 5))\<lparr>cf_type := ''number''\<rparr>) (Map.empty, 0, 0) =
      Inr (Map.empty, 5, 0)"
    by simp
  from inst have "generate_custom_fields
      (scenario_task\<lparr>raw_custom_fields :=
         map (retag ''E'' ''A'' ''S'' (\<lambda>_. ''date'')) (raw_custom_fields scenario_task)\<rparr>)
      ''E'' ''A'' ''S'' = generate_custom_fields scenario_task ''E'' ''A'' ''S''"
    by blast
  with odd scenario_task_result have
    "generate_custom_fields odd_kinds_task ''E'' ''A'' ''S'' =
       Inr [''E'' \<mapsto> PyInt 3, ''X'' \<mapsto> PyStr ''opt1'']"
    by simp
  with id kind step step' show ?thesis by blast
qed

section \<open>Properties of the orchestrator\<close>

lemma submitted_submit: "submitted (submit c req r) = submitted r @ [(c, req)]"
  by (simp add: submit_def)

lemma tasks_in_section_submit: "tasks_in_section (submit c req r) = tasks_in_section r"
  by (simp add: submit_def)

lemma complete_loop_submitted:
  "complete_loop c ts r =
     r\<lparr>submitted := submitted r @ map (\<lambda>t. (c, UpdateTask (task_gid t) [''completed'' \<mapsto> PyBool True])) ts\<rparr>"
  by (induction ts arbitrary: r) (simp_all add: submit_def)

lemma scenario_name: "get_duplicate_name (task_name scenario_task) = Inr ''[1] Hello''"
  by (simp add: scenario_task_def get_duplicate_name_def DUPLICATED_TASK_PREFIX_def)

lemma scenario_generated_memberships:
  "generate_memberships scenario_task ''sprintProj'' ''BL'' =
     [\<lparr>payload_project = ''sprintProj'', payload_section = ''BL''\<rparr>,
      \<lparr>payload_project = ''otherProj'', payload_section = ''otherSection''\<rparr>]"
  by (simp add: generate_memberships_def scenario_task_def scenario_memberships_def)

text \<open>
  Every delete request in the journal was there before the loop or went through the
  module-level \<^verbatim>\<open>client\<close>; none goes through \<^verbatim>\<open>asana_client\<close> as such.
\<close>

lemma duplicate_loop_deletes:
  "(c, DeleteTask g) \<in> set (submitted (snd (duplicate_loop gc ac ws sp bl e a s ts r))) \<Longrightarrow>
   (c, DeleteTask g) \<in> set (submitted r) \<or> gc = Some c"
proof (induction ts arbitrary: r)
  case Nil
  then show ?case by simp
next
  case (Cons t ts)
  show ?case
  proof (cases "get_duplicate_name (task_name t)")
    case (Inl err)
    with Cons.prems show ?thesis by simp
  next
    case name: (Inr name')
    show ?thesis
    proof (cases "generate_custom_fields t e a s")
      case (Inl err)
      with name Cons.prems show ?thesis by simp
    next
      case cfs: (Inr cfs)
      show ?thesis
      proof (cases gc)
        case None
        with name cfs Cons.prems show ?thesis
          by (simp add: submitted_submit)
      next
        case (Some c')
        with name cfs Cons.prems Cons.IH show ?thesis
          by (fastforce simp: submitted_submit)
      qed
    qed
  qed
qed

lemma duplicate_loop_script:
  "list_all (duplicable e a s) ts \<Longrightarrow>
   duplicate_loop (Some c) c ws sp bl e a s ts r =
     (None, r\<lparr>submitted := submitted r @ concat (map (duplication_requests c ws sp bl e a s) ts)\<rparr>)"
proof (induction ts arbitrary: r)
  case Nil
  then show ?case by simp
next
  case (Cons t ts)
  from Cons.prems obtain name' cfs where
    "get_duplicate_name (task_name t) = Inr name'" "generate_custom_fields t e a s = Inr cfs"
    by (cases "get_duplicate_name (task_name t)"; cases "generate_custom_fields t e a s")
       (auto simp: duplicable_def)
  moreover from Cons.prems have "list_all (duplicable e a s) ts" by simp
  ultimately show ?case
    using Cons.IH by (simp add: duplication_requests_def submit_def)
qed


text \<open>
  When the module-level \<^verbatim>\<open>client\<close> is the very client passed as \<^verbatim>\<open>asana_client\<close>, as
  in the \<^verbatim>\<open>__main__\<close> block, and every task of the section is duplicable,
  \<open>duplicate_tasks\<close> ends normally and the journal grows by the listing and then, task by
  task in listing order, by the create followed by the delete.
\<close>

lemma duplicate_tasks_script:
  "list_all (duplicable e a s) (tasks_in_section r section_gid) \<Longrightarrow>
   duplicate_tasks (Some c) c ws sp bl section_gid e a s r =
     (None, r\<lparr>submitted := submitted r @
               (c, GetTasks section_gid duplicate_tasks_opt_fields) #
               concat (map (duplication_requests c ws sp bl e a s)
                         (tasks_in_section r section_gid))\<rparr>)"
  by (simp add: duplicate_tasks_def duplicate_loop_script tasks_in_section_submit
      submitted_submit)

text \<open>
  C6 at its failing input: \<open>duplicate_tasks\<close> called with client 1 while the module-level
  name \<^verbatim>\<open>client\<close> is unbound, on a section that lists one task. The listing and the
  create are submitted through client 1; the lookup of \<^verbatim>\<open>client\<close> for the delete then
  raises \<^verbatim>\<open>NameError\<close>, and no delete request is in the journal.
\<close>

theorem duplicate_tasks_unbound_client:
  "duplicate_tasks None 1 ''ws'' ''sprintProj'' ''BL'' ''in_progress'' ''E'' ''A'' ''S''
     one_task_remote =
     (Some NameError,
      one_task_remote\<lparr>submitted :=
        [(1, GetTasks ''in_progress'' duplicate_tasks_opt_fields),
         (1, CreateInWorkspace ''ws''
               \<lparr>new_name = ''[1] Hello'', new_assignee = Some ''u1'',
                new_memberships =
                  [\<lparr>payload_project = ''sprintProj'', payload_section = ''BL''\<rparr>,
                   \<lparr>payload_project = ''otherProj'', payload_section = ''otherSection''\<rparr>],
                new_custom_fields = [''E'' \<mapsto> PyInt 3, ''X'' \<mapsto> PyStr ''opt1'']\<rparr>)]\<rparr>)"
  by (simp add: duplicate_tasks_def one_task_remote_def submit_def scenario_name
      scenario_task_result scenario_generated_memberships)
    (simp add: scenario_task_def)

text \<open>
  C8: \<open>complete_tasks\<close> adds to the journal the listing of the section and then, for every
  task listed, in order, one update request for that task's id whose payload is the
  dictionary with the single key \<open>completed\<close>, set to true; it submits nothing else and
  leaves the service's snapshot as it is.
\<close>

theorem complete_tasks_requests:
  "complete_tasks c section_gid r =
     r\<lparr>submitted := submitted r @
          (c, GetTasks section_gid []) #
          map (\<lambda>t. (c, UpdateTask (task_gid t) [''completed'' \<mapsto> PyBool True]))
            (tasks_in_section r section_gid)\<rparr> \<and>
   dom [''completed'' \<mapsto> PyBool True] = {''completed''}"
  by (simp add: complete_tasks_def complete_loop_submitted submit_def)

end
